theory Spec2Isabelle
  imports Main
begin

section \<open>Data model\<close>

text \<open>
  Times are milliseconds since the epoch (what \<open>Date.getTime()\<close> returns), as integers.
  Identifiers, keys and messages are strings, as in the TypeScript source.
\<close>

type_synonym timestamp = int

text \<open>\<open>services/email.service.ts\<close>: \<open>EmailStatus\<close>, the four values the \<open>emails.status\<close>
  column takes. There is no cancelled status: \<open>deleteEmail\<close> removes the row.\<close>

datatype EmailStatus = SCHEDULED | RETRYING | SENT | FAILED

text \<open>A row of the \<open>emails\<close> table, with its column names (\<open>id\<close>, \<open>subject\<close> and
  \<open>body\<close> carry a suffix: the job payload below has fields of the same names).\<close>

record Email =
  id_col :: string
  sender_id :: string
  recipient_email :: string
  recipient_name :: "string option"
  subject_col :: string
  body_col :: string
  html_body :: "string option"
  scheduled_at :: timestamp
  sent_at :: "timestamp option"
  status :: EmailStatus
  attempt_count :: nat
  error_message :: "string option"
  idempotency_key :: "string option"
  updated_at :: timestamp

text \<open>A row of the \<open>senders\<close> table (the SMTP columns are not read by the code modelled).\<close>

record Sender =
  sender_pk :: string
  user_id :: string
  sender_name :: string
  sender_email :: string

text \<open>A row of the \<open>email_logs\<close> table (\<open>logged_at\<close> stands for the column
  \<open>attempted_at\<close> the worker writes and \<open>created_at\<close> the log service writes).\<close>

record EmailLog =
  log_email_id :: string
  log_status :: string
  log_message :: string
  logged_at :: timestamp

text \<open>\<open>queues/emailQueue.ts\<close>: \<open>EmailJobData\<close>, the payload of a queue job.\<close>

record EmailJobData =
  emailId :: string
  senderId :: string
  recipientEmail :: string
  recipientName :: "string option"
  subject :: string
  body :: string
  htmlBody :: "string option"
  attemptCount :: nat

text \<open>\<open>config/mailer.ts\<close>: \<open>EmailOptions\<close>, what \<open>sendEmail\<close> hands to the transport.\<close>

record EmailOptions =
  mail_from :: string
  mail_to :: string
  mail_subject :: string
  mail_text :: string
  mail_html :: string

text \<open>\<open>services/rateLimit.service.ts\<close>: \<open>RateLimitStatus\<close>.\<close>

record RateLimitStatus =
  allowed :: bool
  current :: nat
  limit :: nat
  resetAt :: timestamp
  nextWindow :: string

text \<open>
  The state the code reads and writes: the three tables, the Redis counters of the rate
  limiter (keyed by the Redis key string), and the trace of the calls of
  \<open>transporter.sendMail\<close> (one entry per invocation of the delivery collaborator, whether
  it then succeeds or fails). The record store is taken as reachable: a Supabase call
  returns its data, except where the source branches on its \<open>error\<close> (the query of the
  restart loader).
\<close>

record World =
  emails :: "Email list"
  senders :: "Sender list"
  email_logs :: "EmailLog list"
  redis_counters :: "string \<Rightarrow> nat option"
  sent_mails :: "EmailOptions list"

text \<open>
  What one worker attempt reads from outside the state: the clock; what the \<open>Date\<close>
  library makes of it in the local time zone, namely the instant
  \<open>setHours(getHours() + 1, 0, 0, 0)\<close> yields (the start of the next hour of the local wall
  clock) and the two hour-window labels (\<open>getCurrentHourWindow()\<close>, \<open>getNextHourWindow()\<close>);
  the error Redis throws on \<open>get\<close> or on \<open>incr\<close>/\<open>expire\<close> if it does; and the outcome of
  \<open>transporter.sendMail\<close>: \<open>Inl\<close> the message of the error it throws, \<open>Inr\<close> the \<open>messageId\<close>
  it returns. The calendar arithmetic of \<open>Date\<close> (time zone, daylight saving) is not
  modelled: its results are inputs.
\<close>

record Attempt =
  now :: timestamp
  nextHourStart :: timestamp
  getCurrentHourWindow :: string
  getNextHourWindow :: string
  redis_get_error :: "string option"
  redis_incr_error :: "string option"
  sendMail :: "string + string"

text \<open>The result of the job processor: the value it returns, or the error it throws.\<close>

datatype JobResult = Returned string | Thrown string

section \<open>JavaScript helpers\<close>

text \<open>\<open>v || undefined\<close> and \<open>v || null\<close> on an optional string: the empty string is falsy.\<close>

definition or_undefined :: "string option \<Rightarrow> string option" where
  "or_undefined v = (case v of None \<Rightarrow> None | Some s \<Rightarrow> (if s = [] then None else Some s))"

text \<open>\<open>v || d\<close> with a string default.\<close>

definition or_else :: "string option \<Rightarrow> string \<Rightarrow> string" where
  "or_else v d = (case or_undefined v of None \<Rightarrow> d | Some s \<Rightarrow> s)"

text \<open>\<open>s.startsWith(p)\<close>.\<close>

definition startsWith :: "string \<Rightarrow> string \<Rightarrow> bool" where
  "startsWith s p = (take (length p) s = p)"

text \<open>Decimal rendering of a number inside a template string.\<close>

fun show_nat :: "nat \<Rightarrow> string" where
  "show_nat n =
     (if n < 10 then [char_of (48 + n)]
      else show_nat (n div 10) @ [char_of (48 + n mod 10)])"

declare show_nat.simps [simp del]

text \<open>PostgREST's \<open>.single()\<close>: the row when exactly one matches, otherwise no data (error
  \<open>PGRST116\<close>, which the callers modelled here let pass).\<close>

definition single :: "'a list \<Rightarrow> 'a option" where
  "single rows = (case rows of [r] \<Rightarrow> Some r | _ \<Rightarrow> None)"

section \<open>Retry delay: \<open>workers/emailWorker.ts\<close>, \<open>settings.backoffStrategy\<close>\<close>

text \<open>
  \<open>err?.message?.startsWith('RATE_LIMITED')\<close>: \<open>err\<close> is the message of the error, \<open>None\<close>
  when the error is undefined or has no message. The first two arguments are what the
  rate-limited branch reads: \<open>nextHour\<close> (the clock after \<open>setHours(getHours() + 1, 0, 0, 0)\<close>)
  and the clock \<open>t\<close>. The delay is in milliseconds.
\<close>

definition backoffStrategy :: "timestamp \<Rightarrow> timestamp \<Rightarrow> nat \<Rightarrow> string option \<Rightarrow> int" where
  "backoffStrategy nextHour t attemptsMade err =
     (if (case err of None \<Rightarrow> False | Some m \<Rightarrow> startsWith m ''RATE_LIMITED'')
      then nextHour - t
      else min (2 ^ attemptsMade * 1000) 60000)"

section \<open>Rate limiter: \<open>services/rateLimit.service.ts\<close>\<close>

definition redisKey :: "string \<Rightarrow> string \<Rightarrow> string" where
  "redisKey sid hourWindow = ''rate_limit:'' @ sid @ '':'' @ hourWindow"

text \<open>
  \<open>checkRateLimit\<close>: reads the counter of the current hour window and never writes. The
  \<open>catch\<close> branch answers \<open>allowed: true\<close> when Redis throws. \<open>MAX_EMAILS_PER_HOUR\<close> comes
  from the environment (default 100) and is a parameter here.
\<close>

definition checkRateLimit :: "nat \<Rightarrow> Attempt \<Rightarrow> World \<Rightarrow> string \<Rightarrow> RateLimitStatus" where
  "checkRateLimit MAX_EMAILS_PER_HOUR env w sid =
     (case redis_get_error env of
        None \<Rightarrow>
          (let count = (case redis_counters w (redisKey sid (getCurrentHourWindow env)) of
                          None \<Rightarrow> 0 | Some c \<Rightarrow> c)
           in \<lparr>allowed = count < MAX_EMAILS_PER_HOUR, current = count,
               limit = MAX_EMAILS_PER_HOUR,
               resetAt = nextHourStart env,
               nextWindow = getNextHourWindow env\<rparr>)
      | Some err \<Rightarrow>
          \<lparr>allowed = True, current = 0, limit = MAX_EMAILS_PER_HOUR,
           resetAt = now env, nextWindow = getNextHourWindow env\<rparr>)"

text \<open>
  \<open>incrementRateLimit\<close>: \<open>redis.incr\<close> then \<open>redis.expire(key, 7200)\<close> (the expiry itself is
  not modelled). Its \<open>catch\<close> branch logs and rethrows: \<open>Inl\<close> is the error thrown.
\<close>

definition incrementRateLimit :: "Attempt \<Rightarrow> World \<Rightarrow> string \<Rightarrow> string + (nat \<times> World)" where
  "incrementRateLimit env w sid =
     (case redis_incr_error env of
        Some err \<Rightarrow> Inl err
      | None \<Rightarrow>
          (let k = redisKey sid (getCurrentHourWindow env);
               newCount = (case redis_counters w k of None \<Rightarrow> 1 | Some c \<Rightarrow> c + 1)
           in Inr (newCount, w\<lparr>redis_counters := (redis_counters w)(k \<mapsto> newCount)\<rparr>)))"

section \<open>Record store operations\<close>

text \<open>\<open>.from('emails').update(fields).eq('id', i)\<close>: every row with that id gets the
  fields; no row with that id, no change.\<close>

definition updateEmails :: "string \<Rightarrow> (Email \<Rightarrow> Email) \<Rightarrow> World \<Rightarrow> World" where
  "updateEmails i f w = w\<lparr>emails := map (\<lambda>e. if id_col e = i then f e else e) (emails w)\<rparr>"

definition insertLog :: "EmailLog \<Rightarrow> World \<Rightarrow> World" where
  "insertLog l w = w\<lparr>email_logs := email_logs w @ [l]\<rparr>"

text \<open>\<open>services/email.service.ts\<close>: \<open>getEmailById\<close>, \<open>getEmailByIdempotencyKey\<close>,
  \<open>deleteEmail\<close>.\<close>

definition getEmailById :: "string \<Rightarrow> World \<Rightarrow> Email option" where
  "getEmailById i w = single (filter (\<lambda>e. id_col e = i) (emails w))"

definition getEmailByIdempotencyKey :: "string \<Rightarrow> World \<Rightarrow> Email option" where
  "getEmailByIdempotencyKey k w = single (filter (\<lambda>e. idempotency_key e = Some k) (emails w))"

definition deleteEmail :: "string \<Rightarrow> World \<Rightarrow> World" where
  "deleteEmail i w = w\<lparr>emails := filter (\<lambda>e. id_col e \<noteq> i) (emails w)\<rparr>"

text \<open>\<open>services/sender.service.ts\<close>: \<open>getSenderById(id, userId?)\<close>; the filter on the user
  is added \<open>if (userId)\<close>, that is for a non-empty \<open>userId\<close>.\<close>

definition getSenderById :: "string \<Rightarrow> string \<Rightarrow> World \<Rightarrow> Sender option" where
  "getSenderById i userId w =
     single (filter (\<lambda>s. sender_pk s = i \<and> (if userId = [] then True else user_id s = userId))
               (senders w))"

section \<open>Worker: \<open>workers/emailWorker.ts\<close>, the job processor\<close>

definition rateLimitedMessage :: "RateLimitStatus \<Rightarrow> string" where
  "rateLimitedMessage st =
     ''RATE_LIMITED: '' @ show_nat (current st) @ ''/'' @ show_nat (limit st)
       @ '' emails sent. Next window: '' @ nextWindow st"

definition mailOptions :: "Sender \<Rightarrow> EmailJobData \<Rightarrow> EmailOptions" where
  "mailOptions sender d =
     \<lparr>mail_from = [CHR 0x22] @ or_else (Some (sender_name sender)) ''Email Scheduler''
                    @ [CHR 0x22] @ '' <'' @ sender_email sender @ ''>'',
      mail_to = recipientEmail d,
      mail_subject = subject d,
      mail_text = body d,
      mail_html = or_else (htmlBody d) (body d)\<rparr>"

text \<open>
  The \<open>try\<close> block, steps 1 to 9 in the source's order; \<open>Inl\<close> is the message of the error
  thrown, \<open>Inr\<close> the \<open>messageId\<close> returned. The item's row is written (steps 2 and 7) and
  never read: the job's data is all the processor knows of the item. The throttle of step
  4 only waits; one clock reading stands for the attempt. Step 6 appends to \<open>sent_mails\<close>
  before the transport's outcome is known: the entry records the invocation.
\<close>

definition tryBlock :: "nat \<Rightarrow> Attempt \<Rightarrow> EmailJobData \<Rightarrow> World \<Rightarrow> (string + string) \<times> World" where
  "tryBlock MAX_EMAILS_PER_HOUR env d w =
     (let rateLimitStatus = checkRateLimit MAX_EMAILS_PER_HOUR env w (senderId d) in
      if \<not> allowed rateLimitStatus then (Inl (rateLimitedMessage rateLimitStatus), w)
      else
        (let w1 = updateEmails (emailId d)
                    (\<lambda>e. e\<lparr>status := RETRYING, updated_at := now env\<rparr>) w
         in case single (filter (\<lambda>s. sender_pk s = senderId d) (senders w1)) of
              None \<Rightarrow> (Inl (''Sender '' @ senderId d @ '' not found''), w1)
            | Some sender \<Rightarrow>
                (let w2 = w1\<lparr>sent_mails := sent_mails w1 @ [mailOptions sender d]\<rparr>
                 in case sendMail env of
                      Inl err \<Rightarrow> (Inl err, w2)
                    | Inr messageId \<Rightarrow>
                        (let w3 = updateEmails (emailId d)
                                    (\<lambda>e. e\<lparr>status := SENT, sent_at := Some (now env),
                                            updated_at := now env\<rparr>) w2;
                             w4 = insertLog
                                    \<lparr>log_email_id = emailId d, log_status = ''SENT'',
                                     log_message = ''Email sent successfully. Message ID: ''
                                                     @ messageId,
                                     logged_at = now env\<rparr> w3
                         in case incrementRateLimit env w4 (senderId d) of
                              Inl err \<Rightarrow> (Inl err, w4)
                            | Inr (newCount, w5) \<Rightarrow> (Inr messageId, w5)))))"

text \<open>The \<open>catch\<close> block, before its final \<open>throw error\<close>.\<close>

definition catchBlock :: "Attempt \<Rightarrow> EmailJobData \<Rightarrow> string \<Rightarrow> World \<Rightarrow> World" where
  "catchBlock env d msg w =
     (if startsWith msg ''RATE_LIMITED''
      then updateEmails (emailId d)
             (\<lambda>e. e\<lparr>status := RETRYING, error_message := Some msg, updated_at := now env\<rparr>) w
      else insertLog
             \<lparr>log_email_id = emailId d, log_status = ''FAILED'',
              log_message = ''Send failed: '' @ msg, logged_at = now env\<rparr>
             (updateEmails (emailId d)
                (\<lambda>e. e\<lparr>status := FAILED, error_message := Some msg, updated_at := now env\<rparr>) w))"

definition processJob :: "nat \<Rightarrow> Attempt \<Rightarrow> EmailJobData \<Rightarrow> World \<Rightarrow> JobResult \<times> World" where
  "processJob MAX_EMAILS_PER_HOUR env d w =
     (case tryBlock MAX_EMAILS_PER_HOUR env d w of
        (Inr messageId, w') \<Rightarrow> (Returned messageId, w')
      | (Inl msg, w') \<Rightarrow> (Thrown msg, catchBlock env d msg w'))"

text \<open>A sequence of attempts on the same job data, one per element of \<open>envs\<close>.\<close>

definition runAttempts :: "nat \<Rightarrow> EmailJobData \<Rightarrow> Attempt list \<Rightarrow> World \<Rightarrow> World" where
  "runAttempts MAX_EMAILS_PER_HOUR d envs w =
     fold (\<lambda>env w'. snd (processJob MAX_EMAILS_PER_HOUR env d w')) envs w"

section \<open>Execution queue: \<open>queues/emailQueue.ts\<close>\<close>

text \<open>
  A job id is the caller's \<open>jobId\<close> option, or the number the queue assigns when the option
  is \<open>undefined\<close>.
\<close>

datatype JobId = Custom string | Auto nat

datatype JobState = Delayed | Completed | Failed

record Job =
  job_id :: JobId
  job_data :: EmailJobData
  delay :: int
  attemptsMade :: nat
  job_state :: JobState

record Queue =
  jobs :: "Job list"
  next_auto_id :: nat

text \<open>\<open>defaultJobOptions.attempts\<close> of \<open>emailQueue\<close>.\<close>

definition attempts :: nat where
  "attempts = 3"

text \<open>
  Modelled from the spec: the queue library (BullMQ) is not part of the repository. Section
  4.3 gives the contract of \<open>emailQueue.add\<close>: a job whose \<open>jobId\<close> already exists in the
  queue (queued, running or retained) makes the call a no-op that raises nothing; the
  source says the same at the call (\<open>Use idempotency key as job ID to prevent
  duplicates\<close>). With no \<open>jobId\<close> the queue assigns the next number of its own.
\<close>

definition queue_add :: "Queue \<Rightarrow> EmailJobData \<Rightarrow> int \<Rightarrow> string option \<Rightarrow> JobId \<times> Queue" where
  "queue_add q d dl jobId =
     (case jobId of
        None \<Rightarrow>
          (Auto (next_auto_id q),
           q\<lparr>jobs := jobs q @ [\<lparr>job_id = Auto (next_auto_id q), job_data = d, delay = dl,
                                 attemptsMade = 0, job_state = Delayed\<rparr>],
             next_auto_id := Suc (next_auto_id q)\<rparr>)
      | Some k \<Rightarrow>
          (case find (\<lambda>j. job_id j = Custom k) (jobs q) of
             Some j \<Rightarrow> (Custom k, q)
           | None \<Rightarrow>
               (Custom k,
                q\<lparr>jobs := jobs q @ [\<lparr>job_id = Custom k, job_data = d, delay = dl,
                                      attemptsMade = 0, job_state = Delayed\<rparr>]\<rparr>)))"

text \<open>
  \<open>addEmailToQueue\<close>: \<open>queueError\<close> is the error \<open>emailQueue.add\<close> throws, if it does (the
  function logs and rethrows it); \<open>dateNow\<close> is \<open>Date.now()\<close>.
\<close>

definition addEmailToQueue ::
  "string option \<Rightarrow> timestamp \<Rightarrow> Queue \<Rightarrow> EmailJobData \<Rightarrow> timestamp \<Rightarrow> string option
     \<Rightarrow> string + (JobId \<times> Queue)" where
  "addEmailToQueue queueError dateNow q emailData scheduledAt idempotencyKey =
     (let dl = max 0 (scheduledAt - dateNow)
      in case queueError of
           Some err \<Rightarrow> Inl err
         | None \<Rightarrow> Inr (queue_add q emailData dl idempotencyKey))"

text \<open>\<open>defaultJobOptions.backoff\<close> of \<open>emailQueue\<close>: \<open>{ type: 'exponential', delay: 2000 }\<close>.
  \<open>addEmailToQueue\<close> passes no \<open>backoff\<close> of its own, so every job carries these.\<close>

definition backoff_type :: string where
  "backoff_type = ''exponential''"

definition backoff_delay :: int where
  "backoff_delay = 2000"

text \<open>
  The queue library (BullMQ) is not part of the repository; this is its rule for the delay
  of a retry. The \<open>type\<close> of the job's \<open>backoff\<close> option selects the strategy: the built-in
  \<open>fixed\<close> gives the option's \<open>delay\<close>, the built-in \<open>exponential\<close> gives
  \<open>2 ^ (attemptsMade - 1) * delay\<close>, and only a type that is not built in reaches the
  worker's \<open>settings.backoffStrategy\<close>, passed as \<open>custom\<close>. \<open>made\<close> is the job's
  \<open>attemptsMade\<close>, which counts the attempt that just failed, so it is at least 1 here.
\<close>

definition calculateBackoff ::
  "string \<Rightarrow> int \<Rightarrow> (nat \<Rightarrow> string option \<Rightarrow> int) \<Rightarrow> nat \<Rightarrow> string option \<Rightarrow> int" where
  "calculateBackoff type base custom made err =
     (if type = ''fixed'' then base
      else if type = ''exponential'' then 2 ^ (made - 1) * base
      else custom made err)"

text \<open>
  Modelled from the spec: what the queue does with a job whose processor threw (sections
  4.4 and 4.5: retry after a backoff delay, capped at a maximum number of attempts, after
  which the job is failed for good); the source relies on it (\<open>throw error to trigger
  backoff\<close>). Every throw counts as an attempt made. \<open>backoff\<close> gives the delay of the
  retry.
\<close>

definition moveToFailed :: "(nat \<Rightarrow> string option \<Rightarrow> int) \<Rightarrow> Job \<Rightarrow> string \<Rightarrow> Job" where
  "moveToFailed backoff j msg =
     (let made = Suc (attemptsMade j)
      in if made < attempts
         then j\<lparr>delay := backoff made (Some msg), attemptsMade := made, job_state := Delayed\<rparr>
         else j\<lparr>attemptsMade := made, job_state := Failed\<rparr>)"

text \<open>
  One run of a job by the worker: the processor, then the queue's reaction. The worker is
  created with \<open>settings.backoffStrategy\<close>, and the job carries the queue's default
  \<open>backoff\<close> option; the library's rule above decides between them.
\<close>

definition runJob :: "nat \<Rightarrow> Attempt \<Rightarrow> Job \<Rightarrow> World \<Rightarrow> Job \<times> World" where
  "runJob MAX_EMAILS_PER_HOUR env j w =
     (case processJob MAX_EMAILS_PER_HOUR env (job_data j) w of
        (Returned r, w') \<Rightarrow> (j\<lparr>job_state := Completed\<rparr>, w')
      | (Thrown msg, w') \<Rightarrow>
          (moveToFailed
             (calculateBackoff backoff_type backoff_delay
                (backoffStrategy (nextHourStart env) (now env))) j msg, w'))"

section \<open>Submission and cancellation: \<open>controllers/email.controller.ts\<close>\<close>

text \<open>The body of a schedule request after \<open>scheduleEmailSchema.parse\<close> (a body that fails
  validation is answered 400 before any of the code below runs), and the authenticated
  user.\<close>

record ScheduleRequest =
  req_userId :: string
  req_senderId :: string
  req_recipientEmail :: string
  req_recipientName :: "string option"
  req_subject :: string
  req_body :: string
  req_htmlBody :: "string option"
  req_scheduledAt :: timestamp
  req_idempotencyKey :: "string option"

record Response =
  http_status :: nat
  res_message :: string
  res_email :: "Email option"

text \<open>\<open>createEmail\<close>: \<open>newId\<close> is the id the database assigns to the row.\<close>

definition createEmail :: "string \<Rightarrow> timestamp \<Rightarrow> ScheduleRequest \<Rightarrow> World \<Rightarrow> Email \<times> World" where
  "createEmail newId t req w =
     (let email =
        \<lparr>id_col = newId, sender_id = req_senderId req,
         recipient_email = req_recipientEmail req,
         recipient_name = or_undefined (req_recipientName req),
         subject_col = req_subject req, body_col = req_body req,
         html_body = or_undefined (req_htmlBody req),
         scheduled_at = req_scheduledAt req, sent_at = None, status = SCHEDULED,
         attempt_count = 0, error_message = None,
         idempotency_key = or_undefined (req_idempotencyKey req), updated_at = t\<rparr>
      in (email, w\<lparr>emails := emails w @ [email]\<rparr>))"

text \<open>The job payload both the controller and the restart loader build from a row.\<close>

definition jobDataOf :: "Email \<Rightarrow> EmailJobData" where
  "jobDataOf email =
     \<lparr>emailId = id_col email, senderId = sender_id email,
      recipientEmail = recipient_email email,
      recipientName = or_undefined (recipient_name email),
      subject = subject_col email, body = body_col email,
      htmlBody = or_undefined (html_body email), attemptCount = 0\<rparr>"

definition scheduleEmailController ::
  "string \<Rightarrow> timestamp \<Rightarrow> string option \<Rightarrow> ScheduleRequest \<Rightarrow> World \<Rightarrow> Queue
     \<Rightarrow> Response \<times> World \<times> Queue" where
  "scheduleEmailController newId t queueError req w q =
     (case getSenderById (req_senderId req) (req_userId req) w of
        None \<Rightarrow>
          (\<lparr>http_status = 403, res_message = ''Sender not found or access denied'',
            res_email = None\<rparr>, w, q)
      | Some sender \<Rightarrow>
          (case (case or_undefined (req_idempotencyKey req) of
                   None \<Rightarrow> None
                 | Some k \<Rightarrow> getEmailByIdempotencyKey k w) of
             Some existingEmail \<Rightarrow>
               (\<lparr>http_status = 200, res_message = ''Email already scheduled'',
                 res_email = Some existingEmail\<rparr>, w, q)
           | None \<Rightarrow>
               (let (email, w1) = createEmail newId t req w;
                    q1 = (case addEmailToQueue queueError t q (jobDataOf email)
                                 (scheduled_at email) (or_undefined (idempotency_key email)) of
                            Inl err \<Rightarrow> q
                          | Inr (jobId, q') \<Rightarrow> q');
                    w2 = insertLog
                           \<lparr>log_email_id = id_col email, log_status = ''SCHEDULED'',
                            log_message = ''Email scheduled successfully'', logged_at = t\<rparr> w1
                in (\<lparr>http_status = 201, res_message = ''Email scheduled successfully'',
                     res_email = Some email\<rparr>, w2, q1))))"

text \<open>\<open>cancelEmailController\<close>: the row is deleted; the queue is not an argument, since the
  controller never touches it.\<close>

definition cancelEmailController :: "timestamp \<Rightarrow> string \<Rightarrow> string \<Rightarrow> World \<Rightarrow> Response \<times> World" where
  "cancelEmailController t userId i w =
     (case getEmailById i w of
        None \<Rightarrow>
          (\<lparr>http_status = 404, res_message = ''Email not found'', res_email = None\<rparr>, w)
      | Some email \<Rightarrow>
          (case getSenderById (sender_id email) userId w of
             None \<Rightarrow>
               (\<lparr>http_status = 403, res_message = ''Access denied'', res_email = None\<rparr>, w)
           | Some sender \<Rightarrow>
               (\<lparr>http_status = 200, res_message = ''Email cancelled successfully'',
                 res_email = None\<rparr>,
                insertLog
                  \<lparr>log_email_id = i, log_status = ''CANCELLED'',
                   log_message = ''Email cancelled'', logged_at = t\<rparr>
                  (deleteEmail i w))))"

section \<open>Restart recovery: \<open>loaders/requeueOnRestart.ts\<close>\<close>

text \<open>
  One iteration of the loop, with its \<open>try\<close>/\<open>catch\<close>: a row whose time has passed is
  marked \<open>FAILED\<close>; otherwise it is enqueued under \<open>email.idempotency_key || email.id\<close>, and
  an error of the queue is logged and the loop goes on.
\<close>

text \<open>The job id the loader passes: \<open>email.idempotency_key || email.id\<close>.\<close>

definition requeueJobId :: "Email \<Rightarrow> string" where
  "requeueJobId email = or_else (idempotency_key email) (id_col email)"

definition requeueOne :: "string option \<Rightarrow> timestamp \<Rightarrow> Email \<Rightarrow> World \<times> Queue \<Rightarrow> World \<times> Queue" where
  "requeueOne queueError t email wq =
     (if scheduled_at email < t
      then (updateEmails (id_col email)
              (\<lambda>e. e\<lparr>status := FAILED,
                      error_message :=
                        Some ''Email scheduled time has passed during server restart'',
                      updated_at := t\<rparr>) (fst wq), snd wq)
      else (case addEmailToQueue queueError t (snd wq) (jobDataOf email) (scheduled_at email)
                   (Some (requeueJobId email)) of
              Inl err \<Rightarrow> wq
            | Inr (jobId, q') \<Rightarrow> (fst wq, q')))"

text \<open>
  \<open>requeuePendingEmails\<close>: the query selects the rows with status \<open>SCHEDULED\<close> or
  \<open>RETRYING\<close> and \<open>scheduled_at >= now\<close>, ordered by \<open>scheduled_at\<close>; on a query error the
  function returns. \<open>queryNow\<close> is the clock at the query, \<open>loopNow\<close> the clock in the loop.
\<close>

definition requeuePendingEmails ::
  "string option \<Rightarrow> string option \<Rightarrow> timestamp \<Rightarrow> timestamp \<Rightarrow> World \<times> Queue \<Rightarrow> World \<times> Queue" where
  "requeuePendingEmails dbError queueError queryNow loopNow wq =
     (case dbError of
        Some err \<Rightarrow> wq
      | None \<Rightarrow>
          (let pendingEmails =
                 sort_key scheduled_at
                   (filter (\<lambda>e. (status e = SCHEDULED \<or> status e = RETRYING)
                                  \<and> queryNow \<le> scheduled_at e) (emails (fst wq)))
           in fold (requeueOne queueError loopNow) pendingEmails wq))"

section \<open>Example inputs\<close>

text \<open>
  One sender, one scheduled email of that sender due at \<open>60000\<close>, the queue job of that
  email, an attempt at \<open>60000\<close> (one minute into an hour that ends at \<open>3600000\<close>) in which
  Redis and the transport work, an empty queue, and the request that schedules such an
  email.
\<close>

definition ex_sender :: Sender where
  "ex_sender = \<lparr>sender_pk = ''s1'', user_id = ''u1'', sender_name = ''Ann'',
                 sender_email = ''ann@x.io''\<rparr>"

definition ex_email :: Email where
  "ex_email = \<lparr>id_col = ''e1'', sender_id = ''s1'', recipient_email = ''bob@y.io'',
     recipient_name = None, subject_col = ''Hi'', body_col = ''Hello'', html_body = None,
     scheduled_at = 60000, sent_at = None, status = SCHEDULED, attempt_count = 0,
     error_message = None, idempotency_key = None, updated_at = 0\<rparr>"

definition ex_world :: World where
  "ex_world = \<lparr>emails = [ex_email], senders = [ex_sender], email_logs = [],
                redis_counters = (\<lambda>k. None), sent_mails = []\<rparr>"

definition ex_job :: Job where
  "ex_job = \<lparr>job_id = Auto 1, job_data = jobDataOf ex_email, delay = 60000,
              attemptsMade = 0, job_state = Delayed\<rparr>"

definition ex_attempt :: Attempt where
  "ex_attempt = \<lparr>now = 60000, nextHourStart = 3600000, getCurrentHourWindow = ''2026-01-01-00'',
     getNextHourWindow = ''2026-01-01-01'', redis_get_error = None, redis_incr_error = None,
     sendMail = Inr ''m1''\<rparr>"

definition ex_queue :: Queue where
  "ex_queue = \<lparr>jobs = [], next_auto_id = 1\<rparr>"

definition ex_request :: ScheduleRequest where
  "ex_request = \<lparr>req_userId = ''u1'', req_senderId = ''s1'', req_recipientEmail = ''bob@y.io'',
     req_recipientName = None, req_subject = ''Hi'', req_body = ''Hello'', req_htmlBody = None,
     req_scheduledAt = 60000, req_idempotencyKey = None\<rparr>"

section \<open>Properties\<close>

lemmas ex_defs = ex_sender_def ex_email_def ex_world_def ex_job_def ex_attempt_def
  ex_queue_def ex_request_def

lemmas worker_defs = runJob_def processJob_def tryBlock_def catchBlock_def checkRateLimit_def
  incrementRateLimit_def updateEmails_def insertLog_def mailOptions_def redisKey_def
  moveToFailed_def attempts_def single_def or_undefined_def or_else_def startsWith_def
  jobDataOf_def rateLimitedMessage_def backoffStrategy_def calculateBackoff_def
  backoff_type_def backoff_delay_def

lemmas api_defs = scheduleEmailController_def cancelEmailController_def getSenderById_def
  getEmailById_def getEmailByIdempotencyKey_def deleteEmail_def createEmail_def
  addEmailToQueue_def queue_add_def requeuePendingEmails_def requeueOne_def requeueJobId_def

subsection \<open>Record store and JavaScript helpers\<close>

lemma updateEmails_fields [simp]:
  "senders (updateEmails i f w) = senders w"
  "email_logs (updateEmails i f w) = email_logs w"
  "redis_counters (updateEmails i f w) = redis_counters w"
  "sent_mails (updateEmails i f w) = sent_mails w"
  by (simp_all add: updateEmails_def)

lemma insertLog_fields [simp]:
  "emails (insertLog l w) = emails w"
  "senders (insertLog l w) = senders w"
  "redis_counters (insertLog l w) = redis_counters w"
  "sent_mails (insertLog l w) = sent_mails w"
  by (simp_all add: insertLog_def)

lemma updateEmails_emails:
  "emails (updateEmails i f w) = map (\<lambda>e. if id_col e = i then f e else e) (emails w)"
  by (simp add: updateEmails_def)

lemma or_undefined_idem [simp]: "or_undefined (or_undefined v) = or_undefined v"
  by (simp add: or_undefined_def split: option.splits)

lemma or_else_or_undefined [simp]: "or_else (or_undefined v) d = or_else v d"
  by (simp add: or_else_def)

lemma or_else_Some: "or_undefined v = Some k \<Longrightarrow> or_else v d = k"
  by (simp add: or_else_def)

lemma getSenderById_senders:
  "senders w' = senders w \<Longrightarrow> getSenderById i u w' = getSenderById i u w"
  by (simp add: getSenderById_def)

lemma createEmail_fields:
  "id_col (fst (createEmail newId t req w)) = newId"
  "status (fst (createEmail newId t req w)) = SCHEDULED"
  "attempt_count (fst (createEmail newId t req w)) = 0"
  "scheduled_at (fst (createEmail newId t req w)) = req_scheduledAt req"
  "idempotency_key (fst (createEmail newId t req w)) = or_undefined (req_idempotencyKey req)"
  by (simp_all add: createEmail_def Let_def)

subsection \<open>Retry delay\<close>




subsection \<open>The job processor\<close>

text \<open>The fail-open branch of \<open>checkRateLimit\<close>: a Redis error on the read allows the send.\<close>

lemma checkRateLimit_fails_open:
  "redis_get_error env = Some err \<Longrightarrow> allowed (checkRateLimit M env w sid)"
  by (simp add: checkRateLimit_def)

text \<open>\<open>incrementRateLimit\<close> does not fail open: it rethrows the Redis error.\<close>

lemma incrementRateLimit_rethrows:
  "redis_incr_error env = Some err \<Longrightarrow> incrementRateLimit env w sid = Inl err"
  by (simp add: incrementRateLimit_def)

text \<open>
  The processor never reads the item's row: whatever the \<open>emails\<close> table holds, the
  outcome of the attempt and the calls of the transport are the same.
\<close>

lemma processJob_ignores_emails:
  "fst (processJob M env d (w\<lparr>emails := es\<rparr>)) = fst (processJob M env d w)
   \<and> sent_mails (snd (processJob M env d (w\<lparr>emails := es\<rparr>)))
       = sent_mails (snd (processJob M env d w))"
  by (auto simp: processJob_def tryBlock_def catchBlock_def checkRateLimit_def Let_def
        incrementRateLimit_def updateEmails_def insertLog_def
        split: option.splits sum.splits prod.splits if_splits)

lemma tryBlock_delivery_failure:
  assumes "allowed (checkRateLimit M env w (senderId d))"
    and "single (filter (\<lambda>s. sender_pk s = senderId d) (senders w)) = Some s"
    and "sendMail env = Inl msg"
  shows "tryBlock M env d w =
    (Inl msg, (updateEmails (emailId d) (\<lambda>e. e\<lparr>status := RETRYING, updated_at := now env\<rparr>) w)
       \<lparr>sent_mails := sent_mails w @ [mailOptions s d]\<rparr>)"
  using assms by (simp add: tryBlock_def Let_def)

lemma processJob_delivery_failure:
  assumes "allowed (checkRateLimit M env w (senderId d))"
    and "single (filter (\<lambda>s. sender_pk s = senderId d) (senders w)) = Some s"
    and "sendMail env = Inl msg"
    and "\<not> startsWith msg ''RATE_LIMITED''"
  shows "fst (processJob M env d w) = Thrown msg"
    and "emails (snd (processJob M env d w)) =
           map (\<lambda>e. if id_col e = emailId d
                     then e\<lparr>status := FAILED, error_message := Some msg, updated_at := now env\<rparr>
                     else e) (emails w)"
    and "sent_mails (snd (processJob M env d w)) = sent_mails w @ [mailOptions s d]"
  using assms
  by (simp_all add: processJob_def tryBlock_delivery_failure catchBlock_def updateEmails_emails o_def
        cong: if_cong)

lemma processJob_attempt_count:
  "map attempt_count (emails (snd (processJob M env d w))) = map attempt_count (emails w)"
  by (auto simp: processJob_def tryBlock_def catchBlock_def Let_def updateEmails_emails o_def
        incrementRateLimit_def
        split: option.splits sum.splits prod.splits if_splits)

lemma processJob_ids:
  "map id_col (emails (snd (processJob M env d w))) = map id_col (emails w)"
  by (auto simp: processJob_def tryBlock_def catchBlock_def Let_def updateEmails_emails o_def
        incrementRateLimit_def
        split: option.splits sum.splits prod.splits if_splits)

lemma runAttempts_attempt_count:
  "map attempt_count (emails (runAttempts M d envs w)) = map attempt_count (emails w)"
  unfolding runAttempts_def
  by (induction envs arbitrary: w) (simp_all add: processJob_attempt_count)

lemma startsWith_rateLimitedMessage: "startsWith (rateLimitedMessage st) ''RATE_LIMITED''"
  by (simp add: rateLimitedMessage_def startsWith_def)

lemma processJob_rate_limited:
  assumes "redis_get_error env = None"
    and "M \<le> (case redis_counters w (redisKey (senderId d) (getCurrentHourWindow env)) of
                 None \<Rightarrow> 0 | Some c \<Rightarrow> c)"
  shows "processJob M env d w =
           (Thrown (rateLimitedMessage (checkRateLimit M env w (senderId d))),
            updateEmails (emailId d)
              (\<lambda>e. e\<lparr>status := RETRYING,
                      error_message := Some (rateLimitedMessage (checkRateLimit M env w (senderId d))),
                      updated_at := now env\<rparr>) w)"
proof -
  have "\<not> allowed (checkRateLimit M env w (senderId d))"
    using assms by (simp add: checkRateLimit_def Let_def)
  then show ?thesis
    by (simp add: processJob_def tryBlock_def catchBlock_def Let_def startsWith_rateLimitedMessage)
qed

subsection \<open>Cancellation\<close>

text \<open>
  C1. The claim: the worker re-reads the status of a cancelled item and never invokes
  delivery for it. The code, at an explicit input: an email is scheduled (one row, one
  queue job), its owner cancels it (answer 200, the row is deleted, the queue is left as it
  was), and when the job runs the transport is invoked for the recipient and the job
  completes.
\<close>

theorem cancelled_email_is_still_delivered:
  "(let (r1, w1, q1) = scheduleEmailController ''e1'' 0 None ex_request
                         (ex_world\<lparr>emails := []\<rparr>) ex_queue;
        (r2, w2) = cancelEmailController 10 ''u1'' ''e1'' w1
    in http_status r1 = 201 \<and> map id_col (emails w1) = [''e1'']
       \<and> http_status r2 = 200 \<and> emails w2 = []
       \<and> map (emailId \<circ> job_data) (jobs q1) = [''e1'']
       \<and> map (\<lambda>j. job_state (fst (runJob 100 ex_attempt j w2))) (jobs q1) = [Completed]
       \<and> map (\<lambda>j. map mail_to (sent_mails (snd (runJob 100 ex_attempt j w2)))) (jobs q1)
            = [[''bob@y.io'']])"
  by (simp add: ex_defs worker_defs api_defs Let_def)

subsection \<open>Delivery failures\<close>




text \<open>
  C7, as the code has it. Under the same conditions (the rate limit allows the send, the
  sender exists, the transport throws an error whose message does not start with
  \<open>RATE_LIMITED\<close>) the status the attempt leaves persisted on every row of the item is
  \<open>FAILED\<close>: the \<open>RETRYING\<close> that step 2 writes before the send is overwritten by the
  \<open>catch\<close> branch. And no attempt, failed or not, writes \<open>attempt_count\<close>: after that attempt
  and after any sequence of attempts every row holds the count it held before, so the
  count is not incremented and never decreases.
\<close>

theorem delivery_failure_status_and_attempt_count:
  assumes "allowed (checkRateLimit M env w (senderId d))"
    and "single (filter (\<lambda>s. sender_pk s = senderId d) (senders w)) = Some s"
    and "sendMail env = Inl msg"
    and "\<not> startsWith msg ''RATE_LIMITED''"
  shows "(\<forall>e \<in> set (emails (snd (tryBlock M env d w))). id_col e = emailId d \<longrightarrow> status e = RETRYING)
       \<and> (\<forall>e \<in> set (emails (snd (processJob M env d w))). id_col e = emailId d \<longrightarrow> status e = FAILED)
       \<and> map attempt_count (emails (snd (processJob M env d w))) = map attempt_count (emails w)
       \<and> map attempt_count (emails (runAttempts M d envs w)) = map attempt_count (emails w)"
proof -
  have "\<forall>e \<in> set (emails (snd (tryBlock M env d w))). id_col e = emailId d \<longrightarrow> status e = RETRYING"
    by (auto simp: tryBlock_delivery_failure [OF assms(1,2,3)] updateEmails_emails)
  moreover
  have "\<forall>e \<in> set (emails (snd (processJob M env d w))). id_col e = emailId d \<longrightarrow> status e = FAILED"
    by (auto simp: processJob_delivery_failure(2) [OF assms])
  ultimately show ?thesis
    by (simp add: processJob_attempt_count runAttempts_attempt_count)
qed

text \<open>The theorem at a timeout of the transport, and at two such attempts in a row.\<close>

theorem delivery_failure_status_and_attempt_count_witness:
  "map status (emails (snd (processJob 100 (ex_attempt\<lparr>sendMail := Inl ''connect ETIMEDOUT''\<rparr>)
                              (job_data ex_job) ex_world))) = [FAILED]
   \<and> map attempt_count (emails (runAttempts 100 (job_data ex_job)
          [ex_attempt\<lparr>sendMail := Inl ''connect ETIMEDOUT''\<rparr>,
           ex_attempt\<lparr>sendMail := Inl ''connect ETIMEDOUT''\<rparr>] ex_world)) = [0]"
proof -
  let ?env = "ex_attempt\<lparr>sendMail := Inl ''connect ETIMEDOUT''\<rparr>"
  have h1: "allowed (checkRateLimit 100 ?env ex_world (senderId (job_data ex_job)))"
    by (simp add: ex_defs checkRateLimit_def)
  have h2: "single (filter (\<lambda>s. sender_pk s = senderId (job_data ex_job)) (senders ex_world))
              = Some ex_sender"
    by (simp add: ex_defs single_def jobDataOf_def)
  have h3: "sendMail ?env = Inl ''connect ETIMEDOUT''"
    by simp
  have h4: "\<not> startsWith ''connect ETIMEDOUT'' ''RATE_LIMITED''"
    by (simp add: startsWith_def)
  have ids: "map id_col (emails (snd (processJob 100 ?env (job_data ex_job) ex_world))) = [''e1'']"
    by (simp add: processJob_ids) (simp add: ex_world_def ex_email_def)
  have d: "emailId (job_data ex_job) = ''e1''"
    by (simp add: ex_job_def jobDataOf_def ex_email_def)
  have c: "map attempt_count (emails ex_world) = [0]"
    by (simp add: ex_world_def ex_email_def)
  from delivery_failure_status_and_attempt_count [OF h1 h2 h3 h4, of "[?env, ?env]"] ids
  show ?thesis
    unfolding d c by (cases "emails (snd (processJob 100 ?env (job_data ex_job) ex_world))") auto
qed

text \<open>
  C7 as claimed fails: after one attempt whose delivery times out, the row is \<open>FAILED\<close>
  (the claim: deferred) and its \<open>attempt_count\<close> is 0 (the claim: 1).
\<close>

theorem transient_failure_counterexample:
  "map status (emails (snd (processJob 100 (ex_attempt\<lparr>sendMail := Inl ''connect ETIMEDOUT''\<rparr>)
                              (job_data ex_job) ex_world))) = [FAILED]
   \<and> map attempt_count (emails (snd (processJob 100
          (ex_attempt\<lparr>sendMail := Inl ''connect ETIMEDOUT''\<rparr>) (job_data ex_job) ex_world))) = [0]"
  by (simp add: ex_defs worker_defs Let_def)

subsection \<open>Rate limiter failures\<close>

text \<open>
  C3. The claim: a failure of \<open>incrementRateLimit\<close> after a successful delivery leaves the
  item in its success status, neither failed nor retried. The code, at an explicit input:
  the transport accepts the mail and \<open>redis.incr\<close> throws \<open>ECONNRESET\<close>; the row, already
  \<open>SENT\<close>, is persisted as \<open>FAILED\<close>, the job is delayed for a retry, and the retry sends the
  same mail a second time.
\<close>

theorem increment_failure_after_delivery:
  "(let (j1, w1) = runJob 100 (ex_attempt\<lparr>redis_incr_error := Some ''ECONNRESET''\<rparr>)
                     ex_job ex_world;
        (j2, w2) = runJob 100 (ex_attempt\<lparr>now := 62000\<rparr>) j1 w1
    in map mail_to (sent_mails w1) = [''bob@y.io'']
       \<and> map status (emails w1) = [FAILED]
       \<and> job_state j1 = Delayed \<and> attemptsMade j1 = 1
       \<and> map mail_to (sent_mails w2) = [''bob@y.io'', ''bob@y.io'']
       \<and> map status (emails w2) = [SENT])"
  by (simp add: ex_defs worker_defs Let_def)

subsection \<open>Rate-limited attempts\<close>

text \<open>
  What a rate-limited attempt does, for every state: nothing is sent, the rows of the item
  get status \<open>RETRYING\<close> and the error message, the throw is counted as an attempt made, and
  a retry, when one is left, is delayed by the built-in exponential backoff of the job's
  options (2000 ms after the first attempt, 4000 ms after the second), not by the worker's
  \<open>backoffStrategy\<close>.
\<close>

lemma runJob_rate_limited:
  assumes "redis_get_error env = None"
    and "M \<le> (case redis_counters w (redisKey (senderId (job_data j)) (getCurrentHourWindow env)) of
                 None \<Rightarrow> 0 | Some c \<Rightarrow> c)"
  shows "sent_mails (snd (runJob M env j w)) = sent_mails w"
    and "emails (snd (runJob M env j w)) =
           map (\<lambda>e. if id_col e = emailId (job_data j)
                     then e\<lparr>status := RETRYING,
                            error_message :=
                              Some (rateLimitedMessage (checkRateLimit M env w (senderId (job_data j)))),
                            updated_at := now env\<rparr>
                     else e) (emails w)"
    and "attemptsMade (fst (runJob M env j w)) = Suc (attemptsMade j)"
    and "job_state (fst (runJob M env j w)) = (if Suc (attemptsMade j) < 3 then Delayed else Failed)"
    and "Suc (attemptsMade j) < 3 \<Longrightarrow> delay (fst (runJob M env j w)) = 2 ^ attemptsMade j * 2000"
proof -
  let ?msg = "rateLimitedMessage (checkRateLimit M env w (senderId (job_data j)))"
  let ?w' = "updateEmails (emailId (job_data j))
              (\<lambda>e. e\<lparr>status := RETRYING, error_message := Some ?msg, updated_at := now env\<rparr>) w"
  have p: "processJob M env (job_data j) w = (Thrown ?msg, ?w')"
    by (rule processJob_rate_limited [OF assms])
  have run: "runJob M env j w =
               (moveToFailed (calculateBackoff backoff_type backoff_delay
                                (backoffStrategy (nextHourStart env) (now env))) j ?msg, ?w')"
    by (simp add: runJob_def p)
  show "sent_mails (snd (runJob M env j w)) = sent_mails w"
    by (simp add: run)
  show "emails (snd (runJob M env j w)) =
           map (\<lambda>e. if id_col e = emailId (job_data j)
                     then e\<lparr>status := RETRYING, error_message := Some ?msg, updated_at := now env\<rparr>
                     else e) (emails w)"
    by (simp add: run updateEmails_emails)
  show "attemptsMade (fst (runJob M env j w)) = Suc (attemptsMade j)"
    by (simp add: run moveToFailed_def Let_def)
  show "job_state (fst (runJob M env j w)) = (if Suc (attemptsMade j) < 3 then Delayed else Failed)"
    by (simp add: run moveToFailed_def Let_def attempts_def)
  show "delay (fst (runJob M env j w)) = 2 ^ attemptsMade j * 2000" if "Suc (attemptsMade j) < 3"
    using that
    by (simp add: run moveToFailed_def Let_def attempts_def calculateBackoff_def
          backoff_type_def backoff_delay_def)
qed

lemma show_nat_100: "show_nat 100 = ''100''"
  by code_simp

text \<open>
  C6. The claim: a rate-limited attempt is rescheduled by the time left until the start of
  the next hour window, and does not use up one of the 3 attempts. The code, at an explicit
  input: the owner's counter is at the limit of 100 and the job becomes eligible one minute
  into the hour. As claimed, the processor throws \<open>RATE_LIMITED\<close> without invoking the
  transport, persists \<open>RETRYING\<close> with the message and leaves \<open>attempt_count\<close> at 0; and the
  worker's \<open>backoffStrategy\<close> gives for that error the 3540000 ms left in the hour. But the
  job's \<open>backoff\<close> option names the built-in exponential type, so the queue never consults
  that strategy: the job is retried after 2000 ms and again after 4000 ms, each throw
  counted as an attempt made, and the third rate-limited attempt fails the job for good,
  the row still \<open>RETRYING\<close>.
\<close>

theorem rate_limited_retry_ignores_next_hour:
  "(let (j1, w1) = runJob 100 ex_attempt ex_job
                     (ex_world\<lparr>redis_counters := (\<lambda>k. Some 100)\<rparr>);
        (j2, w2) = runJob 100 (ex_attempt\<lparr>now := 62000\<rparr>) j1 w1;
        (j3, w3) = runJob 100 (ex_attempt\<lparr>now := 66000\<rparr>) j2 w2
    in sent_mails w3 = []
       \<and> map status (emails w1) = [RETRYING]
       \<and> map error_message (emails w1)
            = [Some ''RATE_LIMITED: 100/100 emails sent. Next window: 2026-01-01-01'']
       \<and> map attempt_count (emails w3) = [0]
       \<and> backoffStrategy (nextHourStart ex_attempt) (now ex_attempt) 1
            (Some ''RATE_LIMITED: 100/100 emails sent. Next window: 2026-01-01-01'') = 3540000
       \<and> job_state j1 = Delayed \<and> attemptsMade j1 = 1 \<and> delay j1 = 2000
       \<and> job_state j2 = Delayed \<and> attemptsMade j2 = 2 \<and> delay j2 = 4000
       \<and> job_state j3 = Failed \<and> attemptsMade j3 = 3
       \<and> map status (emails w3) = [RETRYING])"
  by (simp add: ex_defs worker_defs Let_def show_nat_100)

subsection \<open>The queue and restart recovery\<close>

text \<open>Adding under a job id the queue already holds changes nothing.\<close>

lemma queue_add_existing_noop:
  assumes "j \<in> set (jobs q)" and "job_id j = Custom k"
  shows "snd (queue_add q d dl (Some k)) = q"
proof (cases "find (\<lambda>j. job_id j = Custom k) (jobs q)")
  case None
  then show ?thesis using assms by (auto simp: find_None_iff)
next
  case (Some j')
  then show ?thesis by (simp add: queue_add_def)
qed

lemma queue_add_ids_mono:
  "job_id ` set (jobs q) \<subseteq> job_id ` set (jobs (snd (queue_add q d dl k)))"
  by (auto simp: queue_add_def split: option.splits)

lemma queue_add_has_custom:
  "Custom k \<in> job_id ` set (jobs (snd (queue_add q d dl (Some k))))"
proof (cases "find (\<lambda>j. job_id j = Custom k) (jobs q)")
  case None
  then show ?thesis by (simp add: queue_add_def)
next
  case (Some j)
  then have "j \<in> set (jobs q)" "job_id j = Custom k"
    by (auto simp: find_Some_iff)
  then show ?thesis using Some by (force simp: queue_add_def)
qed

lemma queue_add_data:
  assumes "\<forall>j \<in> set (jobs q). job_id j = Custom T \<longrightarrow> job_data j = D"
    and "k = T \<longrightarrow> d = D"
  shows "\<forall>j \<in> set (jobs (snd (queue_add q d dl (Some k)))). job_id j = Custom T \<longrightarrow> job_data j = D"
  using assms by (auto simp: queue_add_def split: option.splits)

lemma requeueOne_ids_mono:
  "job_id ` set (jobs (snd wq)) \<subseteq> job_id ` set (jobs (snd (requeueOne qe t e wq)))"
  using queue_add_ids_mono [of "snd wq"]
  by (auto simp: requeueOne_def addEmailToQueue_def Let_def case_prod_beta split: option.splits)

lemma fold_requeueOne_ids_mono:
  "job_id ` set (jobs (snd wq)) \<subseteq> job_id ` set (jobs (snd (fold (requeueOne qe t) es wq)))"
proof (induction es arbitrary: wq)
  case Nil
  show ?case by simp
next
  case (Cons e es)
  have "job_id ` set (jobs (snd wq)) \<subseteq> job_id ` set (jobs (snd (requeueOne qe t e wq)))"
    by (rule requeueOne_ids_mono)
  also have "\<dots> \<subseteq> job_id ` set (jobs (snd (fold (requeueOne qe t) es (requeueOne qe t e wq))))"
    by (rule Cons.IH)
  finally show ?case by simp
qed

lemma requeueOne_enqueues:
  assumes "t \<le> scheduled_at e"
  shows "Custom (requeueJobId e) \<in> job_id ` set (jobs (snd (requeueOne None t e wq)))"
  using assms queue_add_has_custom [of "requeueJobId e" "snd wq" "jobDataOf e"]
  by (simp add: requeueOne_def addEmailToQueue_def Let_def case_prod_beta)

lemma fold_requeueOne_enqueues:
  assumes "e \<in> set es" and "t \<le> scheduled_at e"
  shows "Custom (requeueJobId e) \<in> job_id ` set (jobs (snd (fold (requeueOne None t) es wq)))"
  using assms(1)
proof (induction es arbitrary: wq)
  case Nil
  then show ?case by simp
next
  case (Cons a es)
  show ?case
  proof (cases "a = e")
    case True
    have "Custom (requeueJobId e) \<in> job_id ` set (jobs (snd (requeueOne None t e wq)))"
      by (rule requeueOne_enqueues [OF assms(2)])
    then show ?thesis
      using fold_requeueOne_ids_mono [of "requeueOne None t e wq" None t es] True by auto
  next
    case False
    with Cons.prems have "e \<in> set es" by simp
    then show ?thesis using Cons.IH by simp
  qed
qed

lemma requeueOne_data:
  assumes "\<forall>j \<in> set (jobs (snd wq)). job_id j = Custom T \<longrightarrow> job_data j = D"
    and "requeueJobId e = T \<longrightarrow> jobDataOf e = D"
  shows "\<forall>j \<in> set (jobs (snd (requeueOne qe t e wq))). job_id j = Custom T \<longrightarrow> job_data j = D"
proof (cases "scheduled_at e < t \<or> qe \<noteq> None")
  case True
  then show ?thesis using assms(1)
    by (auto simp: requeueOne_def addEmailToQueue_def Let_def)
next
  case False
  then have r: "snd (requeueOne qe t e wq) =
      snd (queue_add (snd wq) (jobDataOf e) (max 0 (scheduled_at e - t)) (Some (requeueJobId e)))"
    by (auto simp: requeueOne_def addEmailToQueue_def Let_def case_prod_beta)
  show ?thesis
    unfolding r by (rule queue_add_data [OF assms(1)]) (use assms(2) in simp)
qed

lemma fold_requeueOne_data:
  assumes "\<forall>j \<in> set (jobs (snd wq)). job_id j = Custom T \<longrightarrow> job_data j = D"
    and "\<forall>e \<in> set es. requeueJobId e = T \<longrightarrow> jobDataOf e = D"
  shows "\<forall>j \<in> set (jobs (snd (fold (requeueOne qe t) es wq))). job_id j = Custom T \<longrightarrow> job_data j = D"
  using assms
proof (induction es arbitrary: wq)
  case Nil
  then show ?case by simp
next
  case (Cons a es)
  have "\<forall>j \<in> set (jobs (snd (requeueOne qe t a wq))). job_id j = Custom T \<longrightarrow> job_data j = D"
    by (rule requeueOne_data) (use Cons.prems in simp_all)
  then show ?case using Cons.IH Cons.prems(2) by simp
qed

lemma pendingEmails_set:
  "set (sort_key scheduled_at
          (filter (\<lambda>e. (status e = SCHEDULED \<or> status e = RETRYING) \<and> queryNow \<le> scheduled_at e) es))
     = {e \<in> set es. (status e = SCHEDULED \<or> status e = RETRYING) \<and> queryNow \<le> scheduled_at e}"
  by simp

text \<open>What the loader does achieve: a pending row whose time is still ahead, at the query
  and in the loop, has a job under its job id afterwards (when the queue accepts it).\<close>

lemma requeuePendingEmails_enqueues:
  assumes "e \<in> set (emails w)"
    and "status e = SCHEDULED \<or> status e = RETRYING"
    and "queryNow \<le> scheduled_at e" and "loopNow \<le> scheduled_at e"
  shows "Custom (requeueJobId e)
           \<in> job_id ` set (jobs (snd (requeuePendingEmails None None queryNow loopNow (w, q))))"
proof -
  have "e \<in> set (sort_key scheduled_at
          (filter (\<lambda>e. (status e = SCHEDULED \<or> status e = RETRYING) \<and> queryNow \<le> scheduled_at e)
             (emails w)))"
    using assms(1,2,3) by simp
  then show ?thesis
    using fold_requeueOne_enqueues [OF _ assms(4)]
    by (simp add: requeuePendingEmails_def Let_def)
qed

lemma requeuePendingEmails_data:
  assumes "\<forall>j \<in> set (jobs q). job_id j = Custom T \<longrightarrow> job_data j = D"
    and "\<forall>e \<in> set (emails w). requeueJobId e = T \<longrightarrow> jobDataOf e = D"
  shows "\<forall>j \<in> set (jobs (snd (requeuePendingEmails dbe qe queryNow loopNow (w, q)))).
           job_id j = Custom T \<longrightarrow> job_data j = D"
proof (cases dbe)
  case (Some err)
  then show ?thesis using assms(1) by (simp add: requeuePendingEmails_def)
next
  case None
  let ?pend = "sort_key scheduled_at
          (filter (\<lambda>e. (status e = SCHEDULED \<or> status e = RETRYING) \<and> queryNow \<le> scheduled_at e)
             (emails w))"
  have pend: "\<forall>e \<in> set ?pend. requeueJobId e = T \<longrightarrow> jobDataOf e = D"
    using assms(2) by simp
  have "\<forall>j \<in> set (jobs (snd (fold (requeueOne qe loopNow) ?pend (w, q)))).
           job_id j = Custom T \<longrightarrow> job_data j = D"
    by (rule fold_requeueOne_data [OF _ pend]) (use assms(1) in simp)
  then show ?thesis
    using None by (simp add: requeuePendingEmails_def Let_def)
qed

text \<open>
  C4. The claim: no non-terminal item, one whose time has passed included, is left
  neither enqueued nor marked \<open>FAILED\<close>. The code, at an explicit input: one \<open>SCHEDULED\<close> row
  due at \<open>60000\<close>, recovery at \<open>120000\<close>. The query's \<open>scheduled_at >= now\<close> does not select
  the row, so the loop that would mark it \<open>FAILED\<close> never sees it: the store and the empty
  queue are returned as they were.
\<close>

theorem requeue_leaves_past_due_untouched:
  "status ex_email = SCHEDULED \<and> scheduled_at ex_email < 120000
   \<and> requeuePendingEmails None None 120000 120000 (ex_world, ex_queue) = (ex_world, ex_queue)
   \<and> map status (emails ex_world) = [SCHEDULED] \<and> jobs ex_queue = []"
  by (simp add: ex_defs api_defs)

text \<open>
  C5. The claim: every enqueue uses the dedupe key, or else the item's id, as job id, so a
  second enqueue of the item is a no-op. The code, at an explicit input: a submission
  without a key passes \<open>undefined\<close> and the job gets the queue's own number; recovery, run
  while that job is still queued, enqueues the same email under its id: two jobs for one
  item.
\<close>

theorem unkeyed_submission_is_enqueued_twice:
  "(let (r1, w1, q1) = scheduleEmailController ''e1'' 0 None ex_request
                         (ex_world\<lparr>emails := []\<rparr>) ex_queue;
        (w2, q2) = requeuePendingEmails None None 10 10 (w1, q1)
    in map job_id (jobs q1) = [Auto 1]
       \<and> map job_id (jobs q2) = [Auto 1, Custom ''e1'']
       \<and> map (emailId \<circ> job_data) (jobs q2) = [''e1'', ''e1''])"
  by (simp add: ex_defs worker_defs api_defs Let_def)

subsection \<open>Submission\<close>

lemma schedule_existing:
  assumes "getSenderById (req_senderId req) (req_userId req) w = Some s"
    and "or_undefined (req_idempotencyKey req) = Some k"
    and "getEmailByIdempotencyKey k w = Some e"
  shows "scheduleEmailController newId t qe req w q =
           (\<lparr>http_status = 200, res_message = ''Email already scheduled'', res_email = Some e\<rparr>,
            w, q)"
  using assms by (simp add: scheduleEmailController_def)

lemma schedule_new:
  assumes "getSenderById (req_senderId req) (req_userId req) w = Some s"
    and "(case or_undefined (req_idempotencyKey req) of
            None \<Rightarrow> None | Some k \<Rightarrow> getEmailByIdempotencyKey k w) = None"
  shows "scheduleEmailController newId t qe req w q =
           (\<lparr>http_status = 201, res_message = ''Email scheduled successfully'',
             res_email = Some (fst (createEmail newId t req w))\<rparr>,
            insertLog
              \<lparr>log_email_id = newId, log_status = ''SCHEDULED'',
               log_message = ''Email scheduled successfully'', logged_at = t\<rparr>
              (w\<lparr>emails := emails w @ [fst (createEmail newId t req w)]\<rparr>),
            (case qe of
               Some err \<Rightarrow> q
             | None \<Rightarrow>
                 snd (queue_add q (jobDataOf (fst (createEmail newId t req w)))
                        (max 0 (req_scheduledAt req - t))
                        (or_undefined (req_idempotencyKey req)))))"
  using assms
  by (cases qe)
     (simp_all add: scheduleEmailController_def createEmail_def addEmailToQueue_def Let_def
        case_prod_beta)

text \<open>
  C8, as the code has it. For a non-empty key \<open>K\<close>, a sender both requests may use and a
  store with at most one row of key \<open>K\<close>, two calls in sequence answer with the same row,
  the second with status 200 and without inserting or enqueueing, and exactly one row has
  key \<open>K\<close> afterwards.
\<close>

theorem idempotent_creation_nonempty_key:
  assumes "K \<noteq> []"
    and "req_idempotencyKey req1 = Some K" and "req_idempotencyKey req2 = Some K"
    and "getSenderById (req_senderId req1) (req_userId req1) w = Some s1"
    and "getSenderById (req_senderId req2) (req_userId req2) w = Some s2"
    and "length (filter (\<lambda>e. idempotency_key e = Some K) (emails w)) \<le> 1"
    and "scheduleEmailController id1 t1 qe1 req1 w q = (r1, w1, q1)"
    and "scheduleEmailController id2 t2 qe2 req2 w1 q1 = (r2, w2, q2)"
  shows "res_email r1 \<noteq> None \<and> res_email r2 = res_email r1
       \<and> length (filter (\<lambda>e. idempotency_key e = Some K) (emails w2)) = 1
       \<and> http_status r2 = 200 \<and> emails w2 = emails w1 \<and> q2 = q1"
proof -
  have k1: "or_undefined (req_idempotencyKey req1) = Some K"
    and k2: "or_undefined (req_idempotencyKey req2) = Some K"
    using assms(1,2,3) by (simp_all add: or_undefined_def)
  show ?thesis
  proof (cases "filter (\<lambda>e. idempotency_key e = Some K) (emails w)")
    case Nil
    let ?e = "fst (createEmail id1 t1 req1 w)"
    have none: "getEmailByIdempotencyKey K w = None"
      by (simp add: getEmailByIdempotencyKey_def Nil single_def)
    have first: "scheduleEmailController id1 t1 qe1 req1 w q =
           (\<lparr>http_status = 201, res_message = ''Email scheduled successfully'',
             res_email = Some ?e\<rparr>,
            insertLog
              \<lparr>log_email_id = id1, log_status = ''SCHEDULED'',
               log_message = ''Email scheduled successfully'', logged_at = t1\<rparr>
              (w\<lparr>emails := emails w @ [?e]\<rparr>),
            (case qe1 of
               Some err \<Rightarrow> q
             | None \<Rightarrow>
                 snd (queue_add q (jobDataOf ?e) (max 0 (req_scheduledAt req1 - t1))
                        (or_undefined (req_idempotencyKey req1)))))"
      by (rule schedule_new [OF assms(4)]) (simp add: k1 none)
    have r1: "res_email r1 = Some ?e"
      and w1: "emails w1 = emails w @ [?e]" and s1: "senders w1 = senders w"
      using first assms(7) by (auto simp: insertLog_def)
    have key: "idempotency_key ?e = Some K"
      by (simp add: createEmail_fields k1)
    have f1: "filter (\<lambda>e. idempotency_key e = Some K) (emails w1) = [?e]"
      by (simp add: w1 Nil key)
    have found: "getEmailByIdempotencyKey K w1 = Some ?e"
      by (simp add: getEmailByIdempotencyKey_def f1 single_def)
    have sender2: "getSenderById (req_senderId req2) (req_userId req2) w1 = Some s2"
      using assms(5) getSenderById_senders [OF s1] by simp
    have second: "scheduleEmailController id2 t2 qe2 req2 w1 q1 =
           (\<lparr>http_status = 200, res_message = ''Email already scheduled'', res_email = Some ?e\<rparr>,
            w1, q1)"
      by (rule schedule_existing [OF sender2 k2 found])
    show ?thesis
      using second assms(8) r1 f1 by auto
  next
    case (Cons x xs)
    with assms(6) have one: "filter (\<lambda>e. idempotency_key e = Some K) (emails w) = [x]"
      by simp
    have found: "getEmailByIdempotencyKey K w = Some x"
      by (simp add: getEmailByIdempotencyKey_def one single_def)
    have first: "scheduleEmailController id1 t1 qe1 req1 w q =
           (\<lparr>http_status = 200, res_message = ''Email already scheduled'', res_email = Some x\<rparr>,
            w, q)"
      by (rule schedule_existing [OF assms(4) k1 found])
    have second: "scheduleEmailController id2 t2 qe2 req2 w q =
           (\<lparr>http_status = 200, res_message = ''Email already scheduled'', res_email = Some x\<rparr>,
            w, q)"
      by (rule schedule_existing [OF assms(5) k2 found])
    show ?thesis
      using first second assms(7,8) one by auto
  qed
qed

text \<open>The theorem at two submissions with key \<open>k1\<close> into an empty store.\<close>

theorem idempotent_creation_nonempty_key_witness:
  "(let (r1, w1, q1) = scheduleEmailController ''e1'' 0 None
                         (ex_request\<lparr>req_idempotencyKey := Some ''k1''\<rparr>)
                         (ex_world\<lparr>emails := []\<rparr>) ex_queue;
        (r2, w2, q2) = scheduleEmailController ''e2'' 1 None
                         (ex_request\<lparr>req_idempotencyKey := Some ''k1''\<rparr>) w1 q1
    in res_email r2 = res_email r1 \<and> http_status r2 = 200
       \<and> length (filter (\<lambda>e. idempotency_key e = Some ''k1'') (emails w2)) = 1)"
proof -
  let ?req = "ex_request\<lparr>req_idempotencyKey := Some ''k1''\<rparr>"
  let ?w = "ex_world\<lparr>emails := []\<rparr>"
  obtain r1 w1 q1 where c1: "scheduleEmailController ''e1'' 0 None ?req ?w ex_queue = (r1, w1, q1)"
    by (cases "scheduleEmailController ''e1'' 0 None ?req ?w ex_queue")
  obtain r2 w2 q2 where c2: "scheduleEmailController ''e2'' 1 None ?req w1 q1 = (r2, w2, q2)"
    by (cases "scheduleEmailController ''e2'' 1 None ?req w1 q1")
  have h1: "''k1'' \<noteq> []" by simp
  have h2: "req_idempotencyKey ?req = Some ''k1''" by simp
  have h3: "getSenderById (req_senderId ?req) (req_userId ?req) ?w = Some ex_sender"
    by (simp add: getSenderById_def ex_request_def ex_world_def ex_sender_def single_def)
  have h4: "length (filter (\<lambda>e. idempotency_key e = Some ''k1'') (emails ?w)) \<le> 1"
    by simp
  from idempotent_creation_nonempty_key [OF h1 h2 h2 h3 h3 h4 c1 c2]
  show ?thesis by (auto simp: c1 c2)
qed

text \<open>
  C8 as claimed fails for the empty key: \<open>if (data.idempotencyKey)\<close> skips the lookup and
  \<open>data.idempotencyKey || null\<close> stores no key, so two calls with key \<open>''''\<close> create two rows
  with two ids, and no row has that key.
\<close>

theorem empty_key_counterexample:
  "(let (r1, w1, q1) = scheduleEmailController ''e1'' 0 None
                         (ex_request\<lparr>req_idempotencyKey := Some []\<rparr>)
                         (ex_world\<lparr>emails := []\<rparr>) ex_queue;
        (r2, w2, q2) = scheduleEmailController ''e2'' 1 None
                         (ex_request\<lparr>req_idempotencyKey := Some []\<rparr>) w1 q1
    in map_option id_col (res_email r1) = Some ''e1''
       \<and> map_option id_col (res_email r2) = Some ''e2''
       \<and> map id_col (emails w2) = [''e1'', ''e2'']
       \<and> filter (\<lambda>e. idempotency_key e = Some []) (emails w2) = [])"
  by (simp add: ex_defs worker_defs api_defs Let_def)

text \<open>
  C10, as the code has it. When the row is created and \<open>addEmailToQueue\<close> throws, the
  controller answers 201 with \<open>Email scheduled successfully\<close>; the row is persisted as
  \<open>SCHEDULED\<close> and the queue is as it was, so it holds no job for the item. A later recovery
  pass enqueues the item under its job id \<open>T\<close> (the key, or else the id) when its query and
  the queue succeed and it runs while the scheduled time is still ahead, at the query and
  in the loop (and no other row and no job already uses \<open>T\<close>).
\<close>

theorem queue_error_is_swallowed:
  assumes "getSenderById (req_senderId req) (req_userId req) w = Some s"
    and "T = or_else (req_idempotencyKey req) newId"
    and "\<forall>e \<in> set (emails w). requeueJobId e \<noteq> T"
    and "\<forall>j \<in> set (jobs q). job_id j \<noteq> Custom T"
    and "scheduleEmailController newId t (Some err) req w q = (r, w', q')"
  shows "http_status r = 201 \<and> res_message r = ''Email scheduled successfully''
       \<and> (\<exists>email \<in> set (emails w').
             res_email r = Some email \<and> id_col email = newId \<and> status email = SCHEDULED)
       \<and> q' = q \<and> (\<forall>j \<in> set (jobs q'). job_id j \<noteq> Custom T)
       \<and> (queryNow \<le> req_scheduledAt req \<and> loopNow \<le> req_scheduledAt req \<longrightarrow>
            (\<exists>j \<in> set (jobs (snd (requeuePendingEmails None None queryNow loopNow (w', q')))).
               job_id j = Custom T \<and> emailId (job_data j) = newId))"
proof -
  let ?e = "fst (createEmail newId t req w)"
  have nokey: "(case or_undefined (req_idempotencyKey req) of
                  None \<Rightarrow> None | Some k \<Rightarrow> getEmailByIdempotencyKey k w) = None"
  proof (cases "or_undefined (req_idempotencyKey req)")
    case None
    then show ?thesis by simp
  next
    case (Some k)
    then have "T = k" using assms(2) by (simp add: or_else_Some)
    then have "filter (\<lambda>e. idempotency_key e = Some k) (emails w) = []"
      using assms(3) Some
      by (auto simp: filter_empty_conv requeueJobId_def or_else_def or_undefined_def
            split: option.splits if_splits)
    then show ?thesis
      using Some by (simp add: getEmailByIdempotencyKey_def single_def)
  qed
  have sched: "scheduleEmailController newId t (Some err) req w q =
           (\<lparr>http_status = 201, res_message = ''Email scheduled successfully'',
             res_email = Some ?e\<rparr>,
            insertLog
              \<lparr>log_email_id = newId, log_status = ''SCHEDULED'',
               log_message = ''Email scheduled successfully'', logged_at = t\<rparr>
              (w\<lparr>emails := emails w @ [?e]\<rparr>), q)"
    using schedule_new [OF assms(1) nokey, of newId t "Some err" q] by simp
  have r: "http_status r = 201" "res_message r = ''Email scheduled successfully''"
      "res_email r = Some ?e"
    and w': "emails w' = emails w @ [?e]" and q': "q' = q"
    using sched assms(5) by (auto simp: insertLog_def)
  have tok: "requeueJobId ?e = T"
    using assms(2) by (simp add: requeueJobId_def createEmail_fields)
  have row: "\<exists>email \<in> set (emails w').
             res_email r = Some email \<and> id_col email = newId \<and> status email = SCHEDULED"
    using r(3) w' by (simp add: createEmail_fields)
  have rec: "\<exists>j \<in> set (jobs (snd (requeuePendingEmails None None queryNow loopNow (w', q')))).
               job_id j = Custom T \<and> emailId (job_data j) = newId"
    if times: "queryNow \<le> req_scheduledAt req" "loopNow \<le> req_scheduledAt req"
  proof -
    have "Custom (requeueJobId ?e)
            \<in> job_id ` set (jobs (snd (requeuePendingEmails None None queryNow loopNow (w', q'))))"
      by (rule requeuePendingEmails_enqueues) (use w' times in \<open>simp_all add: createEmail_fields\<close>)
    then obtain j where j: "j \<in> set (jobs (snd (requeuePendingEmails None None queryNow loopNow (w', q'))))"
        "job_id j = Custom T"
      using tok by auto
    have "\<forall>j \<in> set (jobs (snd (requeuePendingEmails None None queryNow loopNow (w', q')))).
            job_id j = Custom T \<longrightarrow> job_data j = jobDataOf ?e"
      by (rule requeuePendingEmails_data) (use assms(3,4) w' q' in auto)
    then have "job_data j = jobDataOf ?e" using j by simp
    then have "emailId (job_data j) = newId"
      by (simp add: jobDataOf_def createEmail_fields)
    then show ?thesis using j by blast
  qed
  show ?thesis
    using r(1,2) row q' assms(4) rec by blast
qed

text \<open>The theorem at a submission whose enqueue fails with \<open>ECONNREFUSED\<close>, followed by a
  recovery pass before the scheduled time.\<close>

theorem queue_error_is_swallowed_witness:
  "(let (r, w', q') = scheduleEmailController ''e1'' 0 (Some ''ECONNREFUSED'') ex_request
                        (ex_world\<lparr>emails := []\<rparr>) ex_queue
    in http_status r = 201 \<and> res_message r = ''Email scheduled successfully'' \<and> q' = ex_queue
       \<and> (\<exists>j \<in> set (jobs (snd (requeuePendingEmails None None 10 20 (w', q')))).
             job_id j = Custom ''e1'' \<and> emailId (job_data j) = ''e1''))"
proof -
  let ?w = "ex_world\<lparr>emails := []\<rparr>"
  obtain r w' q' where
    c: "scheduleEmailController ''e1'' 0 (Some ''ECONNREFUSED'') ex_request ?w ex_queue = (r, w', q')"
    by (cases "scheduleEmailController ''e1'' 0 (Some ''ECONNREFUSED'') ex_request ?w ex_queue")
  have h1: "getSenderById (req_senderId ex_request) (req_userId ex_request) ?w = Some ex_sender"
    by (simp add: getSenderById_def ex_request_def ex_world_def ex_sender_def single_def)
  have h2: "''e1'' = or_else (req_idempotencyKey ex_request) ''e1''"
    by (simp add: ex_request_def or_else_def or_undefined_def)
  have h3: "\<forall>e \<in> set (emails ?w). requeueJobId e \<noteq> ''e1''" by simp
  have h4: "\<forall>j \<in> set (jobs ex_queue). job_id j \<noteq> Custom ''e1''"
    by (simp add: ex_queue_def)
  have t: "(10::int) \<le> req_scheduledAt ex_request \<and> (20::int) \<le> req_scheduledAt ex_request"
    by (simp add: ex_request_def)
  from queue_error_is_swallowed [OF h1 h2 h3 h4 c, of 10 20] t
  show ?thesis by (auto simp: c)
qed

text \<open>
  C10 as claimed fails: a later recovery pass need not enqueue the item. After the enqueue
  error has been swallowed (answer 201), a pass that runs after the scheduled time leaves
  the row \<open>SCHEDULED\<close> and the queue empty.
\<close>

theorem queue_error_then_late_recovery_counterexample:
  "(let (r, w', q') = scheduleEmailController ''e1'' 0 (Some ''ECONNREFUSED'') ex_request
                        (ex_world\<lparr>emails := []\<rparr>) ex_queue;
        (w'', q'') = requeuePendingEmails None None 120000 120000 (w', q')
    in http_status r = 201 \<and> map id_col (emails w'') = [''e1'']
       \<and> map status (emails w'') = [SCHEDULED] \<and> jobs q'' = [])"
  by (simp add: ex_defs worker_defs api_defs Let_def)

end
